theory Spec2Isabelle
  imports Main
begin

section \<open>Python values, exceptions and built-in operations\<close>

text \<open>
  The exceptions that \<^verbatim>\<open>get_pomological_data\<close> can raise: an out-of-range list
  index, a missing attribute key, subscripting something that is not a tag, the
  concatenation of no frames, a failed HTTP request, and a file that cannot be opened
  for writing.
\<close>

datatype error = IndexError | KeyError | TypeError | ValueError | RequestError | OSError

text \<open>
  Python strings are modelled as \<^typ>\<open>string\<close>, one \<^typ>\<open>char\<close> for each character the
  Python string counts; every marker, separator and prefix the code names is ASCII.
\<close>

text \<open>\<^verbatim>\<open>xs[i]\<close> for a literal index \<open>i \<ge> 0\<close>: raises IndexError out of range.\<close>

definition py_index :: "'a list \<Rightarrow> nat \<Rightarrow> error + 'a" where
  "py_index xs i = (if i < length xs then Inr (xs ! i) else Inl IndexError)"

text \<open>
  \<^verbatim>\<open>s.replace(old, new)\<close>: every occurrence of \<open>old\<close>, found from the left and not
  overlapping, becomes \<open>new\<close>. An empty \<open>old\<close> matches before every character and at the end.
\<close>

function str_replace :: "string \<Rightarrow> string \<Rightarrow> string \<Rightarrow> string" where
  "str_replace old new [] = (if old = [] then new else [])"
| "str_replace old new (c # cs) =
     (if old = [] then new @ c # str_replace old new cs
      else if take (length old) (c # cs) = old
        then new @ str_replace old new (drop (length old) (c # cs))
      else c # str_replace old new cs)"
  by pat_completeness auto
termination
  by (relation "measure (\<lambda>(old, new, s). length s)") auto

text \<open>\<^verbatim>\<open>s.split(sep)\<close> for a one-character separator; the result is never empty.\<close>

fun str_split :: "char \<Rightarrow> string \<Rightarrow> string list" where
  "str_split sep [] = [[]]"
| "str_split sep (c # cs) =
     (if c = sep then [] # str_split sep cs
      else (case str_split sep cs of
              [] \<Rightarrow> [[c]]
            | w # ws \<Rightarrow> (c # w) # ws))"

text \<open>Decimal rendering of an integer, as \<^verbatim>\<open>str.format\<close> and the CSV writer do it.\<close>

definition digit_char :: "nat \<Rightarrow> char" where
  "digit_char d = char_of (48 + d)"

fun str_nat :: "nat \<Rightarrow> string" where
  "str_nat n = (if n < 10 then [digit_char n] else str_nat (n div 10) @ [digit_char (n mod 10)])"

declare str_nat.simps [simp del]

definition str_int :: "int \<Rightarrow> string" where
  "str_int i = (if i < 0 then CHR ''-'' # str_nat (nat (- i)) else str_nat (nat i))"

text \<open>\<^verbatim>\<open>range(start, stop, step)\<close> for a positive step (the source's step is 20).\<close>

function py_range :: "int \<Rightarrow> int \<Rightarrow> int \<Rightarrow> int list" where
  "py_range start stop step =
     (if 0 < step \<and> start < stop then start # py_range (start + step) stop step else [])"
  by pat_completeness auto
termination
  by (relation "measure (\<lambda>(start, stop, step). nat (stop - start))") auto

declare py_range.simps [simp del]

section \<open>The parsed document (BeautifulSoup)\<close>

text \<open>
  A parsed page is a tree of tags and strings. A tag has a name, the list of its class
  tokens (the multi-valued \<^verbatim>\<open>class\<close> attribute; the empty list stands for a tag without
  one), its other attributes and its children.
\<close>

datatype node =
    NavigableString string
  | Tag (tag_name: string) (tag_classes: "string list")
        (tag_attrs: "(string \<times> string) list") (tag_children: "node list")

text \<open>All descendants in document order, as \<^verbatim>\<open>find_all\<close> visits them.\<close>

fun descendants :: "node \<Rightarrow> node list" where
  "descendants (NavigableString s) = []"
| "descendants (Tag n cls attrs ch) = concat (map (\<lambda>c. c # descendants c) ch)"

text \<open>\<^verbatim>\<open>.text\<close>: the strings below a node, concatenated.\<close>

fun get_text :: "node \<Rightarrow> string" where
  "get_text (NavigableString s) = s"
| "get_text (Tag n cls attrs ch) = concat (map get_text ch)"

fun join_space :: "string list \<Rightarrow> string" where
  "join_space [] = []"
| "join_space [w] = w"
| "join_space (w # ws) = w @ CHR '' '' # join_space ws"

text \<open>
  A \<^verbatim>\<open>class_\<close> filter matches a tag when one of its class tokens equals the filter, or
  when the whole attribute (the tokens joined by one space) does.
\<close>

definition matches :: "string option \<Rightarrow> string option \<Rightarrow> node \<Rightarrow> bool" where
  "matches name class' nd =
     (case nd of
        NavigableString s \<Rightarrow> False
      | Tag n cls attrs ch \<Rightarrow>
          (case name of None \<Rightarrow> True | Some m \<Rightarrow> n = m) \<and>
          (case class' of None \<Rightarrow> True
           | Some c \<Rightarrow> cls \<noteq> [] \<and> (c \<in> set cls \<or> join_space cls = c)))"

definition find_all :: "string option \<Rightarrow> string option \<Rightarrow> node \<Rightarrow> node list" where
  "find_all name class' nd = filter (matches name class') (descendants nd)"

text \<open>\<^verbatim>\<open>tag[key]\<close>: KeyError when the tag has no such attribute.\<close>

definition get_attr :: "node \<Rightarrow> string \<Rightarrow> error + string" where
  "get_attr nd key =
     (case nd of
        NavigableString s \<Rightarrow> Inl TypeError
      | Tag n cls attrs ch \<Rightarrow>
          (case map_of attrs key of None \<Rightarrow> Inl KeyError | Some v \<Rightarrow> Inr v))"

section \<open>Records and frames (pandas)\<close>

record wc_painting =
  painting_index :: "string option"
  fruit :: "string option"
  authors :: "string option"
  subjects :: "string option"
  year :: "string option"
  image :: "string option"
  thumbnail_image :: "string option"

text \<open>A frame is its rows in order, each with its index label.\<close>

type_synonym dataframe = "(int \<times> wc_painting) list"

text \<open>\<^verbatim>\<open>pd.DataFrame(d, index=idx)\<close> for a dict of scalars: one copy of the row per label.\<close>

definition pd_DataFrame :: "wc_painting \<Rightarrow> int list \<Rightarrow> dataframe" where
  "pd_DataFrame d idx = map (\<lambda>i. (i, d)) idx"

text \<open>
  \<^verbatim>\<open>pd.concat(frames)\<close> with its defaults: the rows of all frames in order, each keeping
  its own index label; ValueError when there is no frame.
\<close>

definition pd_concat :: "dataframe list \<Rightarrow> error + dataframe" where
  "pd_concat frames = (if frames = [] then Inl ValueError else Inr (concat frames))"

definition csv_header :: "string list" where
  "csv_header = ['''', ''painting_index'', ''fruit'', ''authors'', ''subjects'', ''year'',
                 ''image'', ''thumbnail_image'']"

definition csv_field :: "string option \<Rightarrow> string" where
  "csv_field v = (case v of None \<Rightarrow> [] | Some s \<Rightarrow> s)"

definition csv_row :: "int \<times> wc_painting \<Rightarrow> string list" where
  "csv_row row =
     str_int (fst row) #
     map csv_field [painting_index (snd row), fruit (snd row), authors (snd row),
                    subjects (snd row), year (snd row), image (snd row),
                    thumbnail_image (snd row)]"

text \<open>
  \<^verbatim>\<open>df.to_csv(path)\<close> with its defaults: a header line whose first field is empty, then
  one line per row, the index label first. The file is kept as its lines of fields.
\<close>

definition to_csv :: "dataframe \<Rightarrow> string list list" where
  "to_csv df = csv_header # map csv_row df"

section \<open>The scraper\<close>

definition IMG_PREFIX :: string where
  "IMG_PREFIX = ''https://naldc-legacy.nal.usda.gov/''"

definition BASE_URL :: "int \<Rightarrow> string" where
  "BASE_URL img_num =
     ''https://naldc-legacy.nal.usda.gov/naldc/search.xhtml?start='' @ str_int img_num @
     ''&collectionFacet=USDA+Pomological+Watercolor+Collection''"

definition newline :: string where "newline = [CHR 0x0A]"
definition tab :: string where "tab = [CHR 0x09]"

text \<open>
  The body of the loop over the cells of a page (lines 83 to 134): the record of one
  cell as a one-row frame with index label 0. Only the lookups inside a
  \<^verbatim>\<open>try\<close> fall back to \<^verbatim>\<open>None\<close>; the others raise.
\<close>

definition scrape_cell :: "node \<Rightarrow> error + wc_painting" where
  "scrape_cell img =
     (case py_index (find_all None (Some ''blacklight-extent_format_facet'') img) 0 of
        Inl e \<Rightarrow> Inl e
      | Inr name_tag \<Rightarrow>
        (let name_info =
               str_split CHR ''.''
                 (str_replace tab [] (str_replace newline [] (get_text name_tag)));
             painting_num = (case py_index name_info 0 of Inl e \<Rightarrow> None | Inr v \<Rightarrow> Some v);
             fruit = (case py_index name_info 1 of Inl e \<Rightarrow> None | Inr v \<Rightarrow> Some v);
             author_info = find_all None (Some ''blacklight-name_facet'') img;
             authors = (case py_index author_info 1 of
                          Inl e \<Rightarrow> None
                        | Inr t \<Rightarrow> Some (get_text t));
             subject_info = find_all None (Some ''blacklight-subject'') img;
             subjects = (case py_index subject_info 1 of
                           Inl e \<Rightarrow> None
                         | Inr t \<Rightarrow>
                             Some (str_replace tab [] (str_replace newline [] (get_text t))));
             year_info = find_all None (Some ''blacklight-year_facet'') img;
             year = (case py_index year_info 1 of
                       Inl e \<Rightarrow> None
                     | Inr t \<Rightarrow>
                         Some (str_replace tab [] (str_replace newline [] (get_text t))));
             img_link = find_all None (Some ''blacklight-specimen_identifier_s'') img
         in case py_index img_link 1 of
              Inl e \<Rightarrow> Inl e
            | Inr link \<Rightarrow>
              (case py_index (find_all (Some ''img'') None link) 0 of
                 Inl e \<Rightarrow> Inl e
               | Inr im \<Rightarrow>
                 (case get_attr im ''src'' of
                    Inl e \<Rightarrow> Inl e
                  | Inr src \<Rightarrow>
                    (let thumbnail_image = IMG_PREFIX @ drop 3 src;
                         image = str_replace ''thumbnail'' ''screen'' thumbnail_image
                     in Inr \<lparr>painting_index = painting_num, fruit = fruit,
                             authors = authors, subjects = subjects, year = year,
                             image = Some image,
                             thumbnail_image = Some thumbnail_image\<rparr>)))))"

text \<open>The loop over the cells: each record is appended as a frame built with \<^verbatim>\<open>index=[0]\<close>.\<close>

fun scrape_cells :: "node list \<Rightarrow> dataframe list \<Rightarrow> error + dataframe list" where
  "scrape_cells [] all_pomo_data = Inr all_pomo_data"
| "scrape_cells (img # cells) all_pomo_data =
     (case scrape_cell img of
        Inl e \<Rightarrow> Inl e
      | Inr wc_painting \<Rightarrow>
          scrape_cells cells (all_pomo_data @ [pd_DataFrame wc_painting [0]]))"

text \<open>What a run does to the outside: lines printed and files written, in order.\<close>

datatype event = Print string | WriteFile string "string list list"

text \<open>
  What \<^verbatim>\<open>requests.get\<close> returns: the status of the response and its body. The
  body is kept as the document that \<^verbatim>\<open>BeautifulSoup(page.content, 'html.parser')\<close>
  builds from it (the parser accepts every input).
\<close>

record response =
  status_code :: nat
  content :: node

text \<open>
  The loop over the page offsets. \<open>web\<close> is the site: the response that
  \<^verbatim>\<open>requests.get\<close> gives for a URL, or the exception it raises. The loop reads
  the body of the response and never its status.
\<close>

fun scrape_pages ::
  "(string \<Rightarrow> error + response) \<Rightarrow> int \<Rightarrow> int list \<Rightarrow> dataframe list \<Rightarrow> event list \<Rightarrow>
   (error + dataframe list) \<times> event list" where
  "scrape_pages web verbose [] all_pomo_data out = (Inr all_pomo_data, out)"
| "scrape_pages web verbose (img_num # rest) all_pomo_data out =
     (let current_url = BASE_URL img_num;
          out1 = (if verbose > 0
                  then out @ [Print (''Scraping images '' @ str_int img_num @ ''-'' @
                                     str_int (img_num + 20))]
                  else out)
      in case web current_url of
           Inl e \<Rightarrow> (Inl e, out1)
         | Inr page \<Rightarrow>
           (let soup = content page
            in case py_index (find_all (Some ''div'') (Some ''grid_12'') soup) 0 of
                 Inl e \<Rightarrow> (Inl e, out1)
               | Inr results \<Rightarrow>
                 (case scrape_cells (find_all None (Some ''document blacklight-pdf'') results)
                         all_pomo_data of
                    Inl e \<Rightarrow> (Inl e, out1)
                  | Inr all_pomo_data' \<Rightarrow>
                      scrape_pages web verbose rest all_pomo_data' out1)))"

text \<open>
  The whole function. \<open>can_write\<close> is the file system: the paths that can be opened
  for writing. \<^verbatim>\<open>to_csv\<close> raises OSError at any other path (a missing directory,
  a refused permission), and then nothing is written and the final line is not printed.
  The function ends after the final \<^verbatim>\<open>print\<close> without a \<^verbatim>\<open>return\<close>
  statement, so a run that succeeds returns \<^verbatim>\<open>None\<close>.
\<close>

definition get_pomological_data ::
  "(string \<Rightarrow> error + response) \<Rightarrow> (string \<Rightarrow> bool) \<Rightarrow> int \<Rightarrow> int \<Rightarrow> string \<Rightarrow> int \<Rightarrow>
   (error + dataframe option) \<times> event list" where
  "get_pomological_data web can_write start end' csv_name verbose =
     (case scrape_pages web verbose (py_range start end' 20) [] [] of
        (Inl e, out) \<Rightarrow> (Inl e, out)
      | (Inr all_pomo_data, out) \<Rightarrow>
          (case pd_concat all_pomo_data of
             Inl e \<Rightarrow> (Inl e, out)
           | Inr all_pomo_df \<Rightarrow>
               (if can_write csv_name
                then (Inr None,
                      out @ [WriteFile csv_name (to_csv all_pomo_df),
                             Print (''Data successfully saved to '' @ csv_name)])
                else (Inl OSError, out))))"

section \<open>Observations on a run\<close>

fun written_files :: "event list \<Rightarrow> (string \<times> string list list) list" where
  "written_files [] = []"
| "written_files (Print s # es) = written_files es"
| "written_files (WriteFile name table # es) = (name, table) # written_files es"

text \<open>The leading column of a written table, below the header line.\<close>

definition index_column :: "string list list \<Rightarrow> string list" where
  "index_column table = map (\<lambda>line. case line of [] \<Rightarrow> [] | c # cs \<Rightarrow> c) (tl table)"

text \<open>
  The positions at which \<open>pat\<close> occurs in \<open>s\<close>; \<open>s\<close> contains \<open>pat\<close> exactly once
  when this list has one element.
\<close>

definition occurrences :: "string \<Rightarrow> string \<Rightarrow> nat list" where
  "occurrences pat s = filter (\<lambda>i. take (length pat) (drop i s) = pat) [0..<Suc (length s)]"

text \<open>
  A structural error at the page of offset \<open>img_num\<close>, in the specification's words:
  a network or HTTP failure (the request raises, or the response has an error status,
  400 or above), a page without results container, or a cell of the container that
  lacks its image-identifier element (the second element of the specimen class).
\<close>

definition structural_error :: "(string \<Rightarrow> error + response) \<Rightarrow> int \<Rightarrow> bool" where
  "structural_error web img_num =
     (case web (BASE_URL img_num) of
        Inl e \<Rightarrow> True
      | Inr page \<Rightarrow>
          400 \<le> status_code page \<or>
          (case find_all (Some ''div'') (Some ''grid_12'') (content page) of
             [] \<Rightarrow> True
           | results # others \<Rightarrow>
               (\<exists>img \<in> set (find_all None (Some ''document blacklight-pdf'') results).
                  length (find_all None (Some ''blacklight-specimen_identifier_s'') img) < 2)))"

text \<open>
  The same without the status of the response: the request raises, the body has no
  results container, or a cell lacks its image-identifier element.
\<close>

definition page_raises :: "(string \<Rightarrow> error + response) \<Rightarrow> int \<Rightarrow> bool" where
  "page_raises web img_num =
     (case web (BASE_URL img_num) of
        Inl e \<Rightarrow> True
      | Inr page \<Rightarrow>
          (case find_all (Some ''div'') (Some ''grid_12'') (content page) of
             [] \<Rightarrow> True
           | results # others \<Rightarrow>
               (\<exists>img \<in> set (find_all None (Some ''document blacklight-pdf'') results).
                  length (find_all None (Some ''blacklight-specimen_identifier_s'') img) < 2)))"

section \<open>Example documents\<close>

text \<open>
  The site's markup gives every field class twice in a cell: once on the label, once on
  the value. The examples follow it.
\<close>

definition labelled :: "string \<Rightarrow> string \<Rightarrow> node \<Rightarrow> node list" where
  "labelled cls label val =
     [Tag ''dt'' [cls] [] [NavigableString label], Tag ''dd'' [cls] [] [val]]"

definition thumbnail_link :: node where
  "thumbnail_link =
     Tag ''a'' [] [(''href'', ''../download/POM00001234'')]
       [Tag ''img'' [] [(''src'', ''../images/thumbnail/x.jpg'')] []]"

definition other_fields :: "node list" where
  "other_fields =
     labelled ''blacklight-name_facet'' ''Artist:''
       (NavigableString ''Passmore, Deborah Griscom'') @
     labelled ''blacklight-subject'' ''Subject:''
       (NavigableString (newline @ ''Malus domestica'' @ tab)) @
     labelled ''blacklight-year_facet'' ''Year:'' (NavigableString (newline @ ''1905''))"

definition example_cell :: "string \<Rightarrow> node" where
  "example_cell name_text =
     Tag ''div'' [''document'', ''blacklight-pdf''] []
       (Tag ''dd'' [''blacklight-extent_format_facet''] [] [NavigableString name_text] #
        other_fields @
        labelled ''blacklight-specimen_identifier_s'' ''Specimen:'' thumbnail_link)"

text \<open>A cell with no name element, and a cell whose specimen class occurs once only.\<close>

definition cell_without_name :: node where
  "cell_without_name =
     Tag ''div'' [''document'', ''blacklight-pdf''] []
       (other_fields @
        labelled ''blacklight-specimen_identifier_s'' ''Specimen:'' thumbnail_link)"

definition cell_without_image :: node where
  "cell_without_image =
     Tag ''div'' [''document'', ''blacklight-pdf''] []
       (Tag ''dd'' [''blacklight-extent_format_facet''] [] [NavigableString ''1234.Apple''] #
        other_fields @
        [Tag ''dt'' [''blacklight-specimen_identifier_s''] [] [NavigableString ''Specimen:'']])"

text \<open>A cell with the label elements only: every field class occurs once, but for the image.\<close>

definition cell_labels_only :: node where
  "cell_labels_only =
     Tag ''div'' [''document'', ''blacklight-pdf''] []
       ([Tag ''dd'' [''blacklight-extent_format_facet''] [] [NavigableString ''5678''],
         Tag ''dt'' [''blacklight-name_facet''] [] [NavigableString ''Artist:'']] @
        labelled ''blacklight-specimen_identifier_s'' ''Specimen:'' thumbnail_link)"

definition example_page :: "node list \<Rightarrow> node" where
  "example_page cells =
     Tag ''[document]'' [] []
       [Tag ''html'' [] []
          [Tag ''body'' [] [] [Tag ''div'' [''grid_12''] [] cells]]]"

text \<open>A site that serves one page, at offset 0, and refuses every other request.\<close>

definition example_web :: "node list \<Rightarrow> string \<Rightarrow> error + response" where
  "example_web cells url =
     (if url = BASE_URL 0 then Inr \<lparr>status_code = 200, content = example_page cells\<rparr>
      else Inl RequestError)"

text \<open>The same site answering with the status of a server error and the same body.\<close>

definition error_status_web :: "node list \<Rightarrow> string \<Rightarrow> error + response" where
  "error_status_web cells url =
     (if url = BASE_URL 0 then Inr \<lparr>status_code = 500, content = example_page cells\<rparr>
      else Inl RequestError)"

text \<open>A file system in which only the working directory can be written.\<close>

definition example_fs :: "string \<Rightarrow> bool" where
  "example_fs path = (CHR ''/'' \<notin> set path)"

text \<open>A cell whose second specimen element holds no image.\<close>

definition cell_without_img_tag :: node where
  "cell_without_img_tag =
     Tag ''div'' [''document'', ''blacklight-pdf''] []
       (Tag ''dd'' [''blacklight-extent_format_facet''] [] [NavigableString ''1234.Apple''] #
        other_fields @
        labelled ''blacklight-specimen_identifier_s'' ''Specimen:''
          (NavigableString ''POM00001234''))"

text \<open>The record of an example cell with the given number and fruit name.\<close>

definition example_record :: "string option \<Rightarrow> string option \<Rightarrow> wc_painting" where
  "example_record num name =
     \<lparr>painting_index = num, fruit = name,
      authors = Some ''Passmore, Deborah Griscom'',
      subjects = Some ''Malus domestica'', year = Some ''1905'',
      image = Some ''https://naldc-legacy.nal.usda.gov/images/screen/x.jpg'',
      thumbnail_image = Some ''https://naldc-legacy.nal.usda.gov/images/thumbnail/x.jpg''\<rparr>"

section \<open>Basic facts about the model\<close>


lemma str_split_not_Nil: "str_split sep s \<noteq> []"
  by (induction s) (auto split: list.splits)

lemma py_index_Inr_iff: "(py_index xs i = Inr x) = (i < length xs \<and> x = xs ! i)"
  by (auto simp: py_index_def)

lemma py_index_Inl_iff: "(py_index xs i = Inl e) = (\<not> i < length xs \<and> e = IndexError)"
  by (auto simp: py_index_def)

lemma scrape_cell_Inr:
  assumes "scrape_cell img = Inr r"
  obtains name_tag link im src where
    "py_index (find_all None (Some ''blacklight-extent_format_facet'') img) 0 = Inr name_tag"
    "py_index (find_all None (Some ''blacklight-specimen_identifier_s'') img) 1 = Inr link"
    "py_index (find_all (Some ''img'') None link) 0 = Inr im"
    "get_attr im ''src'' = Inr src"
    "thumbnail_image r = Some (IMG_PREFIX @ drop 3 src)"
    "image r = Some (str_replace ''thumbnail'' ''screen'' (IMG_PREFIX @ drop 3 src))"
    "painting_index r =
       (case py_index (str_split CHR ''.''
               (str_replace tab [] (str_replace newline [] (get_text name_tag)))) 0 of
          Inl e \<Rightarrow> None | Inr v \<Rightarrow> Some v)"
    "fruit r =
       (case py_index (str_split CHR ''.''
               (str_replace tab [] (str_replace newline [] (get_text name_tag)))) 1 of
          Inl e \<Rightarrow> None | Inr v \<Rightarrow> Some v)"
    "authors r =
       (case py_index (find_all None (Some ''blacklight-name_facet'') img) 1 of
          Inl e \<Rightarrow> None | Inr t \<Rightarrow> Some (get_text t))"
    "subjects r =
       (case py_index (find_all None (Some ''blacklight-subject'') img) 1 of
          Inl e \<Rightarrow> None
        | Inr t \<Rightarrow> Some (str_replace tab [] (str_replace newline [] (get_text t))))"
    "year r =
       (case py_index (find_all None (Some ''blacklight-year_facet'') img) 1 of
          Inl e \<Rightarrow> None
        | Inr t \<Rightarrow> Some (str_replace tab [] (str_replace newline [] (get_text t))))"
  using assms unfolding scrape_cell_def Let_def
  by (auto split: sum.splits)

lemma scrape_cells_Inr:
  "scrape_cells cells acc = Inr acc' \<Longrightarrow>
   \<exists>rs. length rs = length cells \<and> map scrape_cell cells = map Inr rs \<and>
        acc' = acc @ map (\<lambda>r. [(0, r)]) rs"
proof (induction cells arbitrary: acc)
  case Nil
  then show ?case by simp
next
  case (Cons img cells)
  from Cons.prems obtain r where r: "scrape_cell img = Inr r"
    and rest: "scrape_cells cells (acc @ [pd_DataFrame r [0]]) = Inr acc'"
    by (auto split: sum.splits)
  from Cons.IH [OF rest] obtain rs where
    rs: "length rs = length cells" "map scrape_cell cells = map Inr rs"
        "acc' = (acc @ [pd_DataFrame r [0]]) @ map (\<lambda>r. [(0, r)]) rs"
    by blast
  have "length (r # rs) = length (img # cells)" using rs(1) by simp
  moreover have "map scrape_cell (img # cells) = map Inr (r # rs)" using r rs(2) by simp
  moreover have "acc' = acc @ map (\<lambda>r. [(0, r)]) (r # rs)"
    using rs(3) by (simp add: pd_DataFrame_def)
  ultimately show ?case by blast
qed

lemma scrape_cells_Inl:
  "img \<in> set cells \<Longrightarrow> scrape_cell img = Inl e \<Longrightarrow> \<exists>e'. scrape_cells cells acc = Inl e'"
  by (induction cells arbitrary: acc) (auto split: sum.splits)

lemma scrape_pages_no_write:
  "written_files (snd (scrape_pages web verbose offs acc out)) = written_files out"
proof (induction offs arbitrary: acc out)
  case Nil
  then show ?case by simp
next
  case (Cons img_num rest)
  have w: "written_files (xs @ [Print s]) = written_files xs" for xs s
    by (induction xs rule: written_files.induct) auto
  show ?case
    by (simp add: Let_def Cons.IH w split: sum.splits)
qed


lemma str_int_0: "str_int 0 = ''0''"
  by code_simp

lemma str_int_1: "str_int 1 = ''1''"
  by code_simp

lemma replicate_zero_row_numbers:
  "(replicate k ''0'' = map (\<lambda>i. str_int (int i)) [0..<k]) = (k \<le> 1)"
proof (cases "k \<le> 1")
  case True
  then have "k = 0 \<or> k = 1" by auto
  then show ?thesis by (auto simp: str_int_0)
next
  case False
  then have k: "1 < k" by simp
  have "replicate k ''0'' ! 1 = ''0''" using k by simp
  moreover have "map (\<lambda>i. str_int (int i)) [0..<k] ! 1 = ''1''"
    using k by (simp add: str_int_1)
  ultimately have "replicate k ''0'' \<noteq> map (\<lambda>i. str_int (int i)) [0..<k]"
    by auto
  with False show ?thesis by simp
qed

lemma py_range_single: "py_range 0 20 20 = [0]"
  by code_simp

lemma written_files_append:
  "written_files (xs @ ys) = written_files xs @ written_files ys"
  by (induction xs rule: written_files.induct) auto

lemma index_column_to_csv: "index_column (to_csv df) = map (\<lambda>row. str_int (fst row)) df"
  by (simp add: index_column_def to_csv_def csv_row_def comp_def)

lemma scrape_cell_no_image:
  assumes "length (find_all None (Some ''blacklight-specimen_identifier_s'') img) < 2 \<or>
           find_all (Some ''img'') None
             (find_all None (Some ''blacklight-specimen_identifier_s'') img ! 1) = []"
  shows "scrape_cell img = Inl IndexError"
  using assms unfolding scrape_cell_def Let_def
  by (auto simp: py_index_Inr_iff py_index_Inl_iff split: sum.splits)

lemma scrape_pages_Cons:
  "scrape_pages web verbose (img_num # rest) acc out =
     (case scrape_pages web verbose [img_num] acc out of
        (Inl e, out1) \<Rightarrow> (Inl e, out1)
      | (Inr acc', out1) \<Rightarrow> scrape_pages web verbose rest acc' out1)"
  by (simp add: Let_def split: sum.splits)

lemma scrape_pages_error_at:
  assumes "img_num \<in> set offs"
    and "\<And>acc out. \<exists>e out'. scrape_pages web verbose [img_num] acc out = (Inl e, out')"
  shows "\<exists>e out'. scrape_pages web verbose offs acc out = (Inl e, out')"
  using assms(1)
proof (induction offs arbitrary: acc out)
  case Nil
  then show ?case by simp
next
  case (Cons x rest)
  show ?case
  proof (cases "scrape_pages web verbose [x] acc out")
    case (Pair res out1)
    show ?thesis
    proof (cases res)
      case (Inl e)
      with Pair show ?thesis by (subst scrape_pages_Cons) simp
    next
      case (Inr acc')
      from assms(2) [of acc out] Pair Inr have "x \<noteq> img_num" by auto
      with Cons.prems have "img_num \<in> set rest" by simp
      from Cons.IH [OF this, of acc' out1] Pair Inr show ?thesis
        by (subst scrape_pages_Cons) simp
    qed
  qed
qed

lemma page_with_bad_cell:
  assumes "web (BASE_URL img_num) = Inr page"
    and "py_index (find_all (Some ''div'') (Some ''grid_12'') (content page)) 0 = Inr results"
    and "img \<in> set (find_all None (Some ''document blacklight-pdf'') results)"
    and "scrape_cell img = Inl e"
  shows "\<exists>e out'. scrape_pages web verbose [img_num] acc out = (Inl e, out')"
proof -
  from scrape_cells_Inl [OF assms(3,4)] obtain e' where
    "scrape_cells (find_all None (Some ''document blacklight-pdf'') results) acc = Inl e'"
    by blast
  then show ?thesis using assms(1,2) by (simp add: Let_def)
qed

lemma run_error_no_write:
  assumes "scrape_pages web verbose (py_range start end' 20) [] [] = (Inl e, out)"
  shows "get_pomological_data web can_write start end' csv_name verbose = (Inl e, out) \<and>
         written_files out = []"
proof -
  have "written_files (snd (scrape_pages web verbose (py_range start end' 20) [] [])) =
        written_files []"
    by (rule scrape_pages_no_write)
  with assms show ?thesis by (simp add: get_pomological_data_def)
qed

lemma str_replace_no_match:
  assumes "old \<noteq> []" and "\<forall>i. take (length old) (drop i s) \<noteq> old"
  shows "str_replace old new s = s"
  using assms(2)
proof (induction s)
  case Nil
  then show ?case using assms(1) by simp
next
  case (Cons c cs)
  from Cons.prems have "take (length old) (drop 0 (c # cs)) \<noteq> old" by blast
  then have h0: "take (length old) (c # cs) \<noteq> old" by simp
  have "\<forall>i. take (length old) (drop i cs) \<noteq> old"
  proof
    fix i
    from Cons.prems have "take (length old) (drop (Suc i) (c # cs)) \<noteq> old" by blast
    then show "take (length old) (drop i cs) \<noteq> old" by simp
  qed
  from Cons.IH [OF this] h0 assms(1) show ?case by simp
qed

lemma str_replace_first:
  assumes "old \<noteq> []"
    and "\<forall>i<length a. take (length old) (drop i (a @ old @ b)) \<noteq> old"
  shows "str_replace old new (a @ old @ b) = a @ new @ str_replace old new b"
  using assms(2)
proof (induction a)
  case Nil
  from assms(1) obtain p ps where old: "old = p # ps" by (cases old) auto
  show ?case by (simp add: old)
next
  case (Cons x a)
  from Cons.prems have "take (length old) (drop 0 ((x # a) @ old @ b)) \<noteq> old" by auto
  then have h0: "take (length old) (x # a @ old @ b) \<noteq> old" by simp
  have "\<forall>i<length a. take (length old) (drop i (a @ old @ b)) \<noteq> old"
  proof (intro allI impI)
    fix i assume "i < length a"
    then have "Suc i < length (x # a)" by simp
    with Cons.prems have "take (length old) (drop (Suc i) ((x # a) @ old @ b)) \<noteq> old"
      by blast
    then show "take (length old) (drop i (a @ old @ b)) \<noteq> old" by simp
  qed
  from Cons.IH [OF this] h0 assms(1) show ?case by simp
qed

lemma occurrences_iff:
  "i \<in> set (occurrences old s) \<longleftrightarrow> i \<le> length s \<and> take (length old) (drop i s) = old"
  unfolding occurrences_def set_filter set_upt by (simp add: less_Suc_eq_le)

lemma str_replace_once:
  assumes ne: "old \<noteq> []" and once: "length (occurrences old (a @ old @ b)) = 1"
  shows "str_replace old new (a @ old @ b) = a @ new @ b"
proof -
  let ?s = "a @ old @ b"
  let ?occ = "\<lambda>i. take (length old) (drop i ?s) = old"
  from once obtain x where x: "occurrences old ?s = [x]"
    by (cases "occurrences old ?s") auto
  have mem: "i \<in> set (occurrences old ?s) \<longleftrightarrow> i \<le> length ?s \<and> ?occ i" for i
    by (rule occurrences_iff)
  have "length a \<in> set (occurrences old ?s)"
    unfolding mem by simp
  with x have xa: "x = length a" by simp
  have only: "i = length a" if "i \<le> length ?s" "?occ i" for i
    using that mem [of i] x xa by simp
  have before: "\<forall>i<length a. take (length old) (drop i ?s) \<noteq> old"
  proof (intro allI impI)
    fix i assume i: "i < length a"
    show "take (length old) (drop i ?s) \<noteq> old"
    proof
      assume "take (length old) (drop i ?s) = old"
      with i only [of i] show False by simp
    qed
  qed
  have after: "\<forall>j. take (length old) (drop j b) \<noteq> old"
  proof
    fix j
    show "take (length old) (drop j b) \<noteq> old"
    proof
      assume eq: "take (length old) (drop j b) = old"
      have j: "j < length b"
      proof (rule ccontr)
        assume "\<not> j < length b"
        then have "drop j b = []" by simp
        with eq ne show False by simp
      qed
      have "drop (length a + length old + j) ?s = drop j b" by simp
      with eq have "?occ (length a + length old + j)" by simp
      moreover have "length a + length old + j \<le> length ?s" using j by simp
      ultimately have "length a + length old + j = length a" by (rule only [rotated])
      with ne show False by simp
    qed
  qed
  show ?thesis
    using str_replace_first [OF ne before, of new] str_replace_no_match [OF ne after, of new]
    by simp
qed

lemma py_range_empty: "start \<ge> end' \<Longrightarrow> py_range start end' 20 = []"
  by (simp add: py_range.simps)

lemma scrape_cell_painting_index:
  assumes "scrape_cell img = Inr r"
  shows "painting_index r \<noteq> None"
proof -
  from assms obtain name_tag where
    "painting_index r =
       (case py_index (str_split CHR ''.''
               (str_replace tab [] (str_replace newline [] (get_text name_tag)))) 0 of
          Inl e \<Rightarrow> None | Inr v \<Rightarrow> Some v)"
    by (rule scrape_cell_Inr)
  then show ?thesis
    using str_split_not_Nil by (simp add: py_index_def)
qed

lemma scrape_cells_painting_index:
  assumes "scrape_cells cells acc = Inr acc'"
    and "\<forall>df\<in>set acc. \<forall>row\<in>set df. painting_index (snd row) \<noteq> None"
  shows "\<forall>df\<in>set acc'. \<forall>row\<in>set df. painting_index (snd row) \<noteq> None"
  using assms
proof (induction cells arbitrary: acc)
  case Nil
  then show ?case by simp
next
  case (Cons img cells)
  from Cons.prems(1) obtain r where r: "scrape_cell img = Inr r"
    and rest: "scrape_cells cells (acc @ [pd_DataFrame r [0]]) = Inr acc'"
    by (auto split: sum.splits)
  have "\<forall>df\<in>set (acc @ [pd_DataFrame r [0]]). \<forall>row\<in>set df. painting_index (snd row) \<noteq> None"
    using Cons.prems(2) scrape_cell_painting_index [OF r] by (auto simp: pd_DataFrame_def)
  from Cons.IH [OF rest this] show ?case .
qed

lemma scrape_pages_painting_index:
  assumes "scrape_pages web verbose offs acc out = (Inr acc', out')"
    and "\<forall>df\<in>set acc. \<forall>row\<in>set df. painting_index (snd row) \<noteq> None"
  shows "\<forall>df\<in>set acc'. \<forall>row\<in>set df. painting_index (snd row) \<noteq> None"
  using assms
proof (induction offs arbitrary: acc out)
  case Nil
  then show ?case by simp
next
  case (Cons img_num rest)
  from Cons.prems(1) obtain soup results acc1 out1 where
    cells: "scrape_cells (find_all None (Some ''document blacklight-pdf'') results) acc = Inr acc1"
    and rest: "scrape_pages web verbose rest acc1 out1 = (Inr acc', out')"
    by (auto simp: Let_def split: sum.splits)
  from Cons.IH [OF rest scrape_cells_painting_index [OF cells Cons.prems(2)]]
  show ?case .
qed

lemma page_raises_page:
  assumes "page_raises web img_num"
  shows "\<exists>e out'. scrape_pages web verbose [img_num] acc out = (Inl e, out')"
proof (cases "web (BASE_URL img_num)")
  case (Inl e)
  then show ?thesis by (simp add: Let_def)
next
  case (Inr page)
  show ?thesis
  proof (cases "find_all (Some ''div'') (Some ''grid_12'') (content page)")
    case Nil
    then have
      "py_index (find_all (Some ''div'') (Some ''grid_12'') (content page)) 0 = Inl IndexError"
      by (simp add: py_index_def)
    with Inr show ?thesis by (simp add: Let_def)
  next
    case (Cons results others)
    then have container:
      "py_index (find_all (Some ''div'') (Some ''grid_12'') (content page)) 0 = Inr results"
      by (simp add: py_index_def)
    from assms Inr Cons obtain img where
      img: "img \<in> set (find_all None (Some ''document blacklight-pdf'') results)" and
      few: "length (find_all None (Some ''blacklight-specimen_identifier_s'') img) < 2"
      by (auto simp: page_raises_def)
    from few have "scrape_cell img = Inl IndexError"
      by (intro scrape_cell_no_image disjI1)
    with Inr container img show ?thesis by (rule page_with_bad_cell)
  qed
qed

lemma str_replace_char: "str_replace [c] [] s = filter (\<lambda>x. x \<noteq> c) s"
  by (induction s) auto

lemma strip_newline_tab:
  "str_replace tab [] (str_replace newline [] s) =
     filter (\<lambda>c. c \<noteq> CHR 0x0A \<and> c \<noteq> CHR 0x09) s"
  unfolding tab_def newline_def str_replace_char by simp

section \<open>The index column of the written table\<close>

text \<open>
  C1 (as the code has it). For a run over a single page (start 0, end 20) that finds
  \<open>k\<close> cells and succeeds, exactly one table is written, and its leading index column
  holds \<open>k\<close> entries that are all \<open>0\<close>: every record is turned into a frame built with
  \<^verbatim>\<open>index=[0]\<close>, and the concatenation keeps these labels. The column is the row
  numbers \<open>0, ..., k - 1\<close> only when \<open>k \<le> 1\<close>.
\<close>

theorem index_column_all_zero:
  assumes page: "web (BASE_URL 0) = Inr page"
    and container:
      "py_index (find_all (Some ''div'') (Some ''grid_12'') (content page)) 0 = Inr results"
    and k: "length (find_all None (Some ''document blacklight-pdf'') results) = k"
    and run: "get_pomological_data web can_write 0 20 csv_name verbose = (Inr v, out)"
  shows "\<exists>table. written_files out = [(csv_name, table)] \<and>
                 index_column table = replicate k ''0'' \<and>
                 ((index_column table = map (\<lambda>i. str_int (int i)) [0..<k]) = (k \<le> 1))"
proof -
  let ?cells = "find_all None (Some ''document blacklight-pdf'') results"
  let ?out1 = "if verbose > 0
               then [Print (''Scraping images '' @ str_int 0 @ ''-'' @ str_int (0 + 20))]
               else []"
  have pages: "scrape_pages web verbose (py_range 0 20 20) [] [] =
        (case scrape_cells ?cells [] of
           Inl e \<Rightarrow> (Inl e, ?out1)
         | Inr all_pomo_data \<Rightarrow> (Inr all_pomo_data, ?out1))"
    by (simp add: py_range_single page container Let_def split: sum.splits)
  from run obtain all_pomo_data where cells: "scrape_cells ?cells [] = Inr all_pomo_data"
    unfolding get_pomological_data_def pages by (auto split: sum.splits)
  from scrape_cells_Inr [OF cells] obtain rs where
    rs: "length rs = length ?cells" "all_pomo_data = map (\<lambda>r. [(0, r)]) rs"
    by auto
  have frame: "concat all_pomo_data = map (\<lambda>r. (0, r)) rs"
    unfolding rs(2) by (induction rs) auto
  from run have ne: "all_pomo_data \<noteq> []"
    and out: "out = ?out1 @ [WriteFile csv_name (to_csv (concat all_pomo_data)),
                           Print (''Data successfully saved to '' @ csv_name)]"
    unfolding get_pomological_data_def pages cells pd_concat_def
    by (auto split: if_splits)
  have "written_files out = [(csv_name, to_csv (concat all_pomo_data))]"
    unfolding out by (simp add: written_files_append)
  moreover have zeros: "index_column (to_csv (concat all_pomo_data)) = replicate k ''0''"
    unfolding frame index_column_to_csv using rs(1) k
    by (simp add: comp_def str_int_0 map_replicate_const)
  moreover have "(replicate k ''0'' = map (\<lambda>i. str_int (int i)) [0..<k]) = (k \<le> 1)"
    by (rule replicate_zero_row_numbers)
  ultimately show ?thesis by simp
qed

theorem index_column_all_zero_witness:
  "example_web [example_cell ''1234.Apple'', example_cell ''5678''] (BASE_URL 0) =
     Inr \<lparr>status_code = 200,
          content = example_page [example_cell ''1234.Apple'', example_cell ''5678'']\<rparr> \<and>
   (\<exists>table. written_files (snd (get_pomological_data
        (example_web [example_cell ''1234.Apple'', example_cell ''5678'']) example_fs
        0 20 ''out.csv'' 1)) = [(''out.csv'', table)] \<and>
      index_column table = replicate 2 ''0'' \<and>
      index_column table \<noteq> map (\<lambda>i. str_int (int i)) [0..<2])"
proof -
  let ?cells = "[example_cell ''1234.Apple'', example_cell ''5678'']"
  let ?results = "Tag ''div'' [''grid_12''] [] ?cells"
  have page: "example_web ?cells (BASE_URL 0) = Inr \<lparr>status_code = 200, content = example_page ?cells\<rparr>"
    by (simp add: example_web_def)
  have container:
    "py_index (find_all (Some ''div'') (Some ''grid_12'')
        (content \<lparr>status_code = 200, content = example_page ?cells\<rparr>)) 0 = Inr ?results"
    by code_simp
  have k: "length (find_all None (Some ''document blacklight-pdf'') ?results) = 2"
    by code_simp
  have ok: "fst (get_pomological_data (example_web ?cells) example_fs 0 20 ''out.csv'' 1) = Inr None"
    by code_simp
  then have run: "get_pomological_data (example_web ?cells) example_fs 0 20 ''out.csv'' 1 =
      (Inr None, snd (get_pomological_data (example_web ?cells) example_fs 0 20 ''out.csv'' 1))"
    by (metis prod.collapse)
  show ?thesis
    using index_column_all_zero [OF page container k run] page by simp
qed

text \<open>
  C1 as stated fails on a page of two cells: the run finds two cells and writes one
  table whose index column is \<open>0, 0\<close>, not \<open>0, 1\<close>.
\<close>

theorem index_column_counterexample:
  "length (find_all None (Some ''document blacklight-pdf'')
             (example_page [example_cell ''1234.Apple'', example_cell ''5678''])) = 2 \<and>
   map (\<lambda>f. index_column (snd f))
     (written_files (snd (get_pomological_data
        (example_web [example_cell ''1234.Apple'', example_cell ''5678'']) example_fs
        0 20 ''out.csv'' 1))) = [[''0'', ''0'']] \<and>
   [''0'', ''0''] \<noteq> map str_int [0, 1]"
  by code_simp

section \<open>The value returned to the caller\<close>

text \<open>
  C2 (evaluation of the code). On a page with one well-formed cell the run succeeds and
  writes the table to the file, but the value it returns is \<^verbatim>\<open>None\<close>, not the table:
  the function body ends without a \<^verbatim>\<open>return\<close> statement.
\<close>

theorem returns_None:
  "fst (get_pomological_data (example_web [example_cell ''1234.Apple'']) example_fs 0 20 ''out.csv'' 1)
     = Inr None \<and>
   map fst (written_files (snd (get_pomological_data
      (example_web [example_cell ''1234.Apple'']) example_fs 0 20 ''out.csv'' 1))) = [''out.csv'']"
  by code_simp

section \<open>A cell without a name element\<close>

text \<open>
  C3 (evaluation of the code). The lookup of the first name element is outside every
  \<^verbatim>\<open>try\<close>: a cell that has no name element, and is well formed otherwise, raises
  IndexError, and a run over a page that holds such a cell between two good ones
  aborts with nothing written.
\<close>

theorem absent_name_aborts:
  "scrape_cell cell_without_name = Inl IndexError \<and>
   get_pomological_data
     (example_web [example_cell ''1234.Apple'', cell_without_name, example_cell ''5678'']) example_fs
     0 20 ''out.csv'' 0 = (Inl IndexError, [])"
  by code_simp

section \<open>The image pair is not guarded\<close>

text \<open>
  C4. A cell with fewer than two elements of the specimen-identifier class, or whose
  second such element holds no \<^verbatim>\<open>img\<close> element, raises IndexError; a run that
  reaches a page holding such a cell ends in an error with no file written, so no
  record is emitted for that cell or any later one.
\<close>

theorem image_pair_unguarded:
  assumes "img_num \<in> set (py_range start end' 20)"
    and "web (BASE_URL img_num) = Inr page"
    and "py_index (find_all (Some ''div'') (Some ''grid_12'') (content page)) 0 = Inr results"
    and "img \<in> set (find_all None (Some ''document blacklight-pdf'') results)"
    and "length (find_all None (Some ''blacklight-specimen_identifier_s'') img) < 2 \<or>
         find_all (Some ''img'') None
           (find_all None (Some ''blacklight-specimen_identifier_s'') img ! 1) = []"
  shows "scrape_cell img = Inl IndexError \<and>
         (\<exists>e out. get_pomological_data web can_write start end' csv_name verbose = (Inl e, out) \<and>
                  written_files out = [])"
proof -
  have cell: "scrape_cell img = Inl IndexError"
    by (rule scrape_cell_no_image [OF assms(5)])
  have "\<exists>e out'. scrape_pages web verbose (py_range start end' 20) [] [] = (Inl e, out')"
  proof (rule scrape_pages_error_at [OF assms(1)])
    fix acc out
    from assms(2,3,4) cell
    show "\<exists>e out'. scrape_pages web verbose [img_num] acc out = (Inl e, out')"
      by (rule page_with_bad_cell)
  qed
  then obtain e out where "scrape_pages web verbose (py_range start end' 20) [] [] = (Inl e, out)"
    by blast
  from run_error_no_write [OF this] cell show ?thesis by blast
qed

theorem image_pair_unguarded_witness:
  "(0::int) \<in> set (py_range 0 20 20) \<and>
   cell_without_image \<in> set (find_all None (Some ''document blacklight-pdf'')
      (Tag ''div'' [''grid_12''] [] [example_cell ''1234.Apple'', cell_without_image])) \<and>
   length (find_all None (Some ''blacklight-specimen_identifier_s'') cell_without_image) < 2 \<and>
   scrape_cell cell_without_image = Inl IndexError \<and>
   (\<exists>e out. get_pomological_data
        (example_web [example_cell ''1234.Apple'', cell_without_image]) example_fs 0 20 ''out.csv'' 1
        = (Inl e, out) \<and> written_files out = []) \<and>
   find_all (Some ''img'') None
     (find_all None (Some ''blacklight-specimen_identifier_s'') cell_without_img_tag ! 1) = [] \<and>
   scrape_cell cell_without_img_tag = Inl IndexError \<and>
   (\<exists>e out. get_pomological_data
        (example_web [cell_without_img_tag]) example_fs 0 20 ''out.csv'' 1
        = (Inl e, out) \<and> written_files out = [])"
proof -
  let ?cells = "[example_cell ''1234.Apple'', cell_without_image]"
  have h1: "(0::int) \<in> set (py_range 0 20 20)" by code_simp
  have h2: "example_web ?cells (BASE_URL 0) = Inr \<lparr>status_code = 200, content = example_page ?cells\<rparr>"
    by (simp add: example_web_def)
  have h3: "py_index (find_all (Some ''div'') (Some ''grid_12'')
        (content \<lparr>status_code = 200, content = example_page ?cells\<rparr>)) 0 =
      Inr (Tag ''div'' [''grid_12''] [] ?cells)"
    by code_simp
  have h4: "cell_without_image \<in> set (find_all None (Some ''document blacklight-pdf'')
      (Tag ''div'' [''grid_12''] [] ?cells))"
    by code_simp
  have h5: "length (find_all None (Some ''blacklight-specimen_identifier_s'') cell_without_image) < 2"
    by code_simp
  let ?cells' = "[cell_without_img_tag]"
  have g2: "example_web ?cells' (BASE_URL 0) = Inr \<lparr>status_code = 200, content = example_page ?cells'\<rparr>"
    by (simp add: example_web_def)
  have g3: "py_index (find_all (Some ''div'') (Some ''grid_12'')
        (content \<lparr>status_code = 200, content = example_page ?cells'\<rparr>)) 0 =
      Inr (Tag ''div'' [''grid_12''] [] ?cells')"
    by code_simp
  have g4: "cell_without_img_tag \<in> set (find_all None (Some ''document blacklight-pdf'')
      (Tag ''div'' [''grid_12''] [] ?cells'))"
    by code_simp
  have g5: "find_all (Some ''img'') None
     (find_all None (Some ''blacklight-specimen_identifier_s'') cell_without_img_tag ! 1) = []"
    by code_simp
  have d: "length (find_all None (Some ''blacklight-specimen_identifier_s'')
               cell_without_image) < 2 \<or>
           find_all (Some ''img'') None
             (find_all None (Some ''blacklight-specimen_identifier_s'') cell_without_image ! 1)
             = []"
    using h5 by (rule disjI1)
  have d': "length (find_all None (Some ''blacklight-specimen_identifier_s'')
               cell_without_img_tag) < 2 \<or>
           find_all (Some ''img'') None
             (find_all None (Some ''blacklight-specimen_identifier_s'') cell_without_img_tag ! 1)
             = []"
    using g5 by (rule disjI2)
  from image_pair_unguarded
         [where web = "example_web ?cells" and img = cell_without_image and
            can_write = example_fs and csv_name = "''out.csv''" and verbose = 1, OF h1 h2 h3 h4 d]
       image_pair_unguarded
         [where web = "example_web ?cells'" and img = cell_without_img_tag and
            can_write = example_fs and csv_name = "''out.csv''" and verbose = 1, OF h1 g2 g3 g4 d']
       h1 h4 h5 g5
  show ?thesis by blast
qed

section \<open>The image is the thumbnail with one segment replaced\<close>

text \<open>
  C5. In every emitted record \<open>image\<close> is \<open>thumbnail_image\<close> with every
  \<^verbatim>\<open>thumbnail\<close> replaced by \<^verbatim>\<open>screen\<close>; the one is present exactly when the other
  is; and when \<open>thumbnail_image\<close> contains \<^verbatim>\<open>thumbnail\<close> exactly once, \<open>image\<close>
  is the same string but for that one substitution.
\<close>

theorem image_from_thumbnail:
  assumes "scrape_cell img = Inr r"
  shows "image r = map_option (str_replace ''thumbnail'' ''screen'') (thumbnail_image r) \<and>
         ((image r = None) = (thumbnail_image r = None)) \<and>
         (thumbnail_image r = Some (a @ ''thumbnail'' @ b) \<and>
          length (occurrences ''thumbnail'' (a @ ''thumbnail'' @ b)) = 1 \<longrightarrow>
            image r = Some (a @ ''screen'' @ b))"
proof -
  from assms obtain src where
    th: "thumbnail_image r = Some (IMG_PREFIX @ drop 3 src)" and
    im: "image r = Some (str_replace ''thumbnail'' ''screen'' (IMG_PREFIX @ drop 3 src))"
    by (rule scrape_cell_Inr)
  have one: "image r = Some (a @ ''screen'' @ b)"
    if "thumbnail_image r = Some (a @ ''thumbnail'' @ b)"
      and "length (occurrences ''thumbnail'' (a @ ''thumbnail'' @ b)) = 1"
  proof -
    from that(1) th have "IMG_PREFIX @ drop 3 src = a @ ''thumbnail'' @ b" by simp
    with im have "image r = Some (str_replace ''thumbnail'' ''screen'' (a @ ''thumbnail'' @ b))"
      by simp
    also have "str_replace ''thumbnail'' ''screen'' (a @ ''thumbnail'' @ b) = a @ ''screen'' @ b"
      by (rule str_replace_once [OF _ that(2)]) simp
    finally show ?thesis .
  qed
  from th im one show ?thesis by simp
qed

theorem image_from_thumbnail_witness:
  "scrape_cell (example_cell ''1234.Apple'') =
     Inr (example_record (Some ''1234'') (Some ''Apple'')) \<and>
   thumbnail_image (example_record (Some ''1234'') (Some ''Apple'')) =
     Some (''https://naldc-legacy.nal.usda.gov/images/'' @ ''thumbnail'' @ ''/x.jpg'') \<and>
   length (occurrences ''thumbnail''
     (''https://naldc-legacy.nal.usda.gov/images/'' @ ''thumbnail'' @ ''/x.jpg'')) = 1 \<and>
   image (example_record (Some ''1234'') (Some ''Apple'')) =
     Some (''https://naldc-legacy.nal.usda.gov/images/'' @ ''screen'' @ ''/x.jpg'')"
proof -
  have h1: "scrape_cell (example_cell ''1234.Apple'') =
     Inr (example_record (Some ''1234'') (Some ''Apple''))"
    by code_simp
  have h2: "thumbnail_image (example_record (Some ''1234'') (Some ''Apple'')) =
     Some (''https://naldc-legacy.nal.usda.gov/images/'' @ ''thumbnail'' @ ''/x.jpg'')"
    by code_simp
  have h3: "length (occurrences ''thumbnail''
     (''https://naldc-legacy.nal.usda.gov/images/'' @ ''thumbnail'' @ ''/x.jpg'')) = 1"
    by code_simp
  from image_from_thumbnail [OF h1, of "''https://naldc-legacy.nal.usda.gov/images/''" "''/x.jpg''"]
       h1 h2 h3
  show ?thesis by blast
qed

section \<open>The name field\<close>

text \<open>
  C6. For a cell that has a name element (and an image pair), the text of the first
  name element, with every newline and tab character removed, is split on the dot: the
  first segment is \<open>painting_index\<close>, the second is \<open>fruit\<close>, a missing segment is
  \<^verbatim>\<open>None\<close>, and the cell yields its record whatever the number of segments. The text
  \<^verbatim>\<open>1234.Apple\<close> gives \<^verbatim>\<open>1234\<close> and \<^verbatim>\<open>Apple\<close>; the text \<^verbatim>\<open>5678\<close>
  gives \<^verbatim>\<open>5678\<close> and no fruit.
\<close>

theorem name_field_split:
  assumes "py_index (find_all None (Some ''blacklight-extent_format_facet'') img) 0 = Inr name_tag"
    and "py_index (find_all None (Some ''blacklight-specimen_identifier_s'') img) 1 = Inr link"
    and "py_index (find_all (Some ''img'') None link) 0 = Inr im"
    and "get_attr im ''src'' = Inr src"
  shows "\<exists>r. scrape_cell img = Inr r \<and>
           (let name_info = str_split CHR ''.''
                  (filter (\<lambda>c. c \<noteq> CHR 0x0A \<and> c \<noteq> CHR 0x09) (get_text name_tag))
            in painting_index r = (if 0 < length name_info then Some (name_info ! 0) else None) \<and>
               fruit r = (if 1 < length name_info then Some (name_info ! 1) else None)) \<and>
           (get_text name_tag = ''1234.Apple'' \<longrightarrow>
              painting_index r = Some ''1234'' \<and> fruit r = Some ''Apple'') \<and>
           (get_text name_tag = ''5678'' \<longrightarrow>
              painting_index r = Some ''5678'' \<and> fruit r = None)"
proof -
  let ?strip = "filter (\<lambda>c. c \<noteq> CHR 0x0A \<and> c \<noteq> CHR 0x09)"
  let ?name_info = "str_split CHR ''.'' (?strip (get_text name_tag))"
  have apple: "str_split CHR ''.'' (?strip ''1234.Apple'') = [''1234'', ''Apple'']"
    by code_simp
  have bare: "str_split CHR ''.'' (?strip ''5678'') = [''5678'']"
    by code_simp
  obtain r where r: "scrape_cell img = Inr r"
    unfolding scrape_cell_def Let_def assms sum.case by blast
  from r obtain name_tag' where
    n: "py_index (find_all None (Some ''blacklight-extent_format_facet'') img) 0 = Inr name_tag'"
    and p: "painting_index r =
       (case py_index (str_split CHR ''.''
               (str_replace tab [] (str_replace newline [] (get_text name_tag')))) 0 of
          Inl e \<Rightarrow> None | Inr v \<Rightarrow> Some v)"
    and f: "fruit r =
       (case py_index (str_split CHR ''.''
               (str_replace tab [] (str_replace newline [] (get_text name_tag')))) 1 of
          Inl e \<Rightarrow> None | Inr v \<Rightarrow> Some v)"
    by (rule scrape_cell_Inr)
  from n assms(1) have same: "name_tag' = name_tag" by simp
  have p': "painting_index r = (if 0 < length ?name_info then Some (?name_info ! 0) else None)"
    unfolding p same strip_newline_tab py_index_def by simp
  have f': "fruit r = (if 1 < length ?name_info then Some (?name_info ! 1) else None)"
    unfolding f same strip_newline_tab py_index_def by simp
  have s1: "painting_index r = Some ''1234'' \<and> fruit r = Some ''Apple''"
    if "get_text name_tag = ''1234.Apple''"
    unfolding p' f' that apple by simp
  have s2: "painting_index r = Some ''5678'' \<and> fruit r = None"
    if "get_text name_tag = ''5678''"
    unfolding p' f' that bare by simp
  from r p' f' s1 s2 show ?thesis unfolding Let_def by blast
qed

theorem name_field_split_witness:
  "py_index (find_all None (Some ''blacklight-extent_format_facet'') (example_cell ''5678'')) 0 =
     Inr (Tag ''dd'' [''blacklight-extent_format_facet''] [] [NavigableString ''5678'']) \<and>
   (\<exists>r. scrape_cell (example_cell ''5678'') = Inr r \<and>
        painting_index r = Some ''5678'' \<and> fruit r = None) \<and>
   py_index (find_all None (Some ''blacklight-extent_format_facet'')
       (example_cell ''1234.Apple'')) 0 =
     Inr (Tag ''dd'' [''blacklight-extent_format_facet''] [] [NavigableString ''1234.Apple'']) \<and>
   (\<exists>r. scrape_cell (example_cell ''1234.Apple'') = Inr r \<and>
        painting_index r = Some ''1234'' \<and> fruit r = Some ''Apple'') \<and>
   py_index (find_all None (Some ''blacklight-extent_format_facet'')
       (example_cell ([CHR 0x0A, CHR 0x09] @ ''12'' @ [CHR 0x09] @ ''34.Apple'' @ [CHR 0x0A]))) 0 =
     Inr (Tag ''dd'' [''blacklight-extent_format_facet''] []
            [NavigableString
               ([CHR 0x0A, CHR 0x09] @ ''12'' @ [CHR 0x09] @ ''34.Apple'' @ [CHR 0x0A])]) \<and>
   (\<exists>r. scrape_cell
          (example_cell ([CHR 0x0A, CHR 0x09] @ ''12'' @ [CHR 0x09] @ ''34.Apple'' @ [CHR 0x0A]))
          = Inr r \<and>
        painting_index r = Some ''1234'' \<and> fruit r = Some ''Apple'')"
proof -
  let ?img = "Tag ''img'' [] [(''src'', ''../images/thumbnail/x.jpg'')] []"
  let ?link = "Tag ''dd'' [''blacklight-specimen_identifier_s''] [] [thumbnail_link]"
  let ?name = "\<lambda>t. Tag ''dd'' [''blacklight-extent_format_facet''] [] [NavigableString t]"
  let ?raw = "[CHR 0x0A, CHR 0x09] @ ''12'' @ [CHR 0x09] @ ''34.Apple'' @ [CHR 0x0A]"
  have a1: "py_index (find_all None (Some ''blacklight-extent_format_facet'')
      (example_cell ''5678'')) 0 = Inr (?name ''5678'')"
    by code_simp
  have a2: "py_index (find_all None (Some ''blacklight-specimen_identifier_s'')
      (example_cell ''5678'')) 1 = Inr ?link"
    by code_simp
  have b1: "py_index (find_all None (Some ''blacklight-extent_format_facet'')
      (example_cell ''1234.Apple'')) 0 = Inr (?name ''1234.Apple'')"
    by code_simp
  have b2: "py_index (find_all None (Some ''blacklight-specimen_identifier_s'')
      (example_cell ''1234.Apple'')) 1 = Inr ?link"
    by code_simp
  have c1: "py_index (find_all None (Some ''blacklight-extent_format_facet'')
      (example_cell ?raw)) 0 = Inr (?name ?raw)"
    by code_simp
  have c2: "py_index (find_all None (Some ''blacklight-specimen_identifier_s'')
      (example_cell ?raw)) 1 = Inr ?link"
    by code_simp
  have h3: "py_index (find_all (Some ''img'') None ?link) 0 = Inr ?img"
    by code_simp
  have h4: "get_attr ?img ''src'' = Inr ''../images/thumbnail/x.jpg''"
    by code_simp
  have ta: "get_text (?name ''5678'') = ''5678''" by simp
  have tb: "get_text (?name ''1234.Apple'') = ''1234.Apple''" by simp
  have tc: "str_split CHR ''.''
              (filter (\<lambda>c. c \<noteq> CHR 0x0A \<and> c \<noteq> CHR 0x09) (get_text (?name ?raw))) =
            [''1234'', ''Apple'']"
    by code_simp
  from name_field_split [OF c1 c2 h3 h4]
  have C: "\<exists>r. scrape_cell (example_cell ?raw) = Inr r \<and>
        painting_index r = Some ''1234'' \<and> fruit r = Some ''Apple''"
    unfolding Let_def tc by auto
  from name_field_split [OF a1 a2 h3 h4] ta name_field_split [OF b1 b2 h3 h4] tb a1 b1 c1 C
  show ?thesis by blast
qed

section \<open>Authors, subjects and year come from the second match\<close>

text \<open>
  C7. In every emitted record, \<open>authors\<close>, \<open>subjects\<close> and \<open>year\<close> are each the
  text of the second element (index 1) of their class when the cell has at least two
  such elements, and \<^verbatim>\<open>None\<close> when it has fewer; \<open>subjects\<close> and \<open>year\<close> lose
  their newlines and tabs.
\<close>

theorem second_match_fields:
  assumes "scrape_cell img = Inr r"
  shows "(let author_info = find_all None (Some ''blacklight-name_facet'') img
          in authors r = (if 2 \<le> length author_info
                          then Some (get_text (author_info ! 1)) else None)) \<and>
         (let subject_info = find_all None (Some ''blacklight-subject'') img
          in subjects r = (if 2 \<le> length subject_info
                           then Some (str_replace tab [] (str_replace newline []
                                        (get_text (subject_info ! 1))))
                           else None)) \<and>
         (let year_info = find_all None (Some ''blacklight-year_facet'') img
          in year r = (if 2 \<le> length year_info
                       then Some (str_replace tab [] (str_replace newline []
                                    (get_text (year_info ! 1))))
                       else None))"
proof -
  have two: "(2 \<le> length xs) = (1 < length xs)" for xs :: "node list" by auto
  show ?thesis
    by (rule scrape_cell_Inr [OF assms]) (simp add: Let_def py_index_def two)
qed

theorem second_match_fields_witness:
  "scrape_cell (example_cell ''1234.Apple'') =
     Inr (example_record (Some ''1234'') (Some ''Apple'')) \<and>
   map get_text (find_all None (Some ''blacklight-name_facet'') (example_cell ''1234.Apple''))
     = [''Artist:'', ''Passmore, Deborah Griscom''] \<and>
   authors (example_record (Some ''1234'') (Some ''Apple'')) = Some ''Passmore, Deborah Griscom'' \<and>
   scrape_cell cell_labels_only =
     Inr ((example_record (Some ''5678'') None)
            \<lparr>authors := None, subjects := None, year := None\<rparr>) \<and>
   map get_text (find_all None (Some ''blacklight-name_facet'') cell_labels_only)
     = [''Artist:''] \<and>
   authors ((example_record (Some ''5678'') None)
              \<lparr>authors := None, subjects := None, year := None\<rparr>) = None"
proof -
  let ?a = "find_all None (Some ''blacklight-name_facet'') (example_cell ''1234.Apple'')"
  let ?b = "find_all None (Some ''blacklight-name_facet'') cell_labels_only"
  have h1: "scrape_cell (example_cell ''1234.Apple'') =
     Inr (example_record (Some ''1234'') (Some ''Apple''))"
    by code_simp
  have h2: "map get_text ?a = [''Artist:'', ''Passmore, Deborah Griscom'']"
    by code_simp
  have g1: "scrape_cell cell_labels_only =
     Inr ((example_record (Some ''5678'') None)
            \<lparr>authors := None, subjects := None, year := None\<rparr>)"
    by code_simp
  have g2: "map get_text ?b = [''Artist:'']"
    by code_simp
  from h2 have la: "length ?a = 2" and ta: "get_text (?a ! 1) = ''Passmore, Deborah Griscom''"
    by (auto simp: map_eq_Cons_conv)
  from g2 have lb: "length ?b = 1" by (auto simp: map_eq_Cons_conv)
  from second_match_fields [OF h1] la ta
  have A: "authors (example_record (Some ''1234'') (Some ''Apple'')) =
      Some ''Passmore, Deborah Griscom''"
    by (simp add: Let_def)
  from second_match_fields [OF g1] lb
  have B: "authors ((example_record (Some ''5678'') None)
              \<lparr>authors := None, subjects := None, year := None\<rparr>) = None"
    by (simp add: Let_def)
  from h1 h2 g1 g2 A B show ?thesis by blast
qed

section \<open>One write, at the end, and none on failure\<close>

text \<open>
  C8 (as the code has it). A run that ends in an error, the failure to open the file
  included, has written no file. A run that succeeds has gone through the loop over
  all offsets without writing, and then writes the file once, followed only by the
  completion notice. If, at the page of any offset of the range, the request raises,
  the body has no results container or a cell lacks its image-identifier element, the
  run ends in an error with no file written. The status of a response plays no part.
\<close>

theorem single_write_at_end:
  "(\<forall>e out. get_pomological_data web can_write start end' csv_name verbose = (Inl e, out) \<longrightarrow>
      written_files out = []) \<and>
   (\<forall>v out. get_pomological_data web can_write start end' csv_name verbose = (Inr v, out) \<longrightarrow>
      (\<exists>all_pomo_data pages_out all_pomo_df.
         scrape_pages web verbose (py_range start end' 20) [] [] = (Inr all_pomo_data, pages_out) \<and>
         written_files pages_out = [] \<and>
         pd_concat all_pomo_data = Inr all_pomo_df \<and>
         out = pages_out @ [WriteFile csv_name (to_csv all_pomo_df),
                            Print (''Data successfully saved to '' @ csv_name)] \<and>
         written_files out = [(csv_name, to_csv all_pomo_df)])) \<and>
   ((\<exists>img_num \<in> set (py_range start end' 20). page_raises web img_num) \<longrightarrow>
      (\<exists>e out. get_pomological_data web can_write start end' csv_name verbose = (Inl e, out) \<and>
               written_files out = []))"
proof -
  obtain res pages_out where
    pages: "scrape_pages web verbose (py_range start end' 20) [] [] = (res, pages_out)"
    by (cases "scrape_pages web verbose (py_range start end' 20) [] []") blast
  have "written_files (snd (scrape_pages web verbose (py_range start end' 20) [] [])) =
        written_files []"
    by (rule scrape_pages_no_write)
  with pages have quiet: "written_files pages_out = []" by simp
  have A: "written_files out = []"
    if "get_pomological_data web can_write start end' csv_name verbose = (Inl e, out)" for e out
    using that pages quiet
    by (auto simp: get_pomological_data_def split: sum.splits if_splits)
  have B: "\<exists>all_pomo_data pages_out all_pomo_df.
         scrape_pages web verbose (py_range start end' 20) [] [] = (Inr all_pomo_data, pages_out) \<and>
         written_files pages_out = [] \<and>
         pd_concat all_pomo_data = Inr all_pomo_df \<and>
         out = pages_out @ [WriteFile csv_name (to_csv all_pomo_df),
                            Print (''Data successfully saved to '' @ csv_name)] \<and>
         written_files out = [(csv_name, to_csv all_pomo_df)]"
    if "get_pomological_data web can_write start end' csv_name verbose = (Inr v, out)" for v out
    using that pages quiet
    by (auto simp: get_pomological_data_def written_files_append split: sum.splits if_splits)
  have C: "\<exists>e out. get_pomological_data web can_write start end' csv_name verbose = (Inl e, out) \<and>
               written_files out = []"
    if "\<exists>img_num \<in> set (py_range start end' 20). page_raises web img_num"
  proof -
    from that obtain img_num where
      m: "img_num \<in> set (py_range start end' 20)" and s: "page_raises web img_num"
      by blast
    have "\<exists>e out'. scrape_pages web verbose (py_range start end' 20) [] [] = (Inl e, out')"
    proof (rule scrape_pages_error_at [OF m])
      fix acc out
      from s show "\<exists>e out'. scrape_pages web verbose [img_num] acc out = (Inl e, out')"
        by (rule page_raises_page)
    qed
    then obtain e out where
      "scrape_pages web verbose (py_range start end' 20) [] [] = (Inl e, out)" by blast
    from run_error_no_write [OF this] show ?thesis by blast
  qed
  from A B C show ?thesis by blast
qed

theorem single_write_at_end_witness:
  "(\<exists>img_num \<in> set (py_range 0 20 20).
      page_raises (example_web [example_cell ''1234.Apple'', cell_without_image]) img_num) \<and>
   (\<exists>e out. get_pomological_data
        (example_web [example_cell ''1234.Apple'', cell_without_image]) example_fs
        0 20 ''out.csv'' 1
        = (Inl e, out) \<and> written_files out = []) \<and>
   get_pomological_data (example_web [example_cell ''1234.Apple'']) example_fs
     0 20 ''out.csv'' 1 =
     (Inr None,
      [Print ''Scraping images 0-20'',
       WriteFile ''out.csv'' (to_csv [(0, example_record (Some ''1234'') (Some ''Apple''))]),
       Print ''Data successfully saved to out.csv'']) \<and>
   (\<exists>all_pomo_data pages_out.
      scrape_pages (example_web [example_cell ''1234.Apple'']) 1 (py_range 0 20 20) [] [] =
        (Inr all_pomo_data, pages_out) \<and> written_files pages_out = []) \<and>
   get_pomological_data (example_web [example_cell ''1234.Apple'']) example_fs
     0 20 ''missing_dir/out.csv'' 1 =
     (Inl OSError, [Print ''Scraping images 0-20'']) \<and>
   written_files [Print ''Scraping images 0-20''] = []"
proof -
  have h: "\<exists>img_num \<in> set (py_range 0 20 20).
      page_raises (example_web [example_cell ''1234.Apple'', cell_without_image]) img_num"
    by code_simp
  have ok: "get_pomological_data (example_web [example_cell ''1234.Apple'']) example_fs
     0 20 ''out.csv'' 1 =
     (Inr None,
      [Print ''Scraping images 0-20'',
       WriteFile ''out.csv'' (to_csv [(0, example_record (Some ''1234'') (Some ''Apple''))]),
       Print ''Data successfully saved to out.csv''])"
    by code_simp
  have no: "get_pomological_data (example_web [example_cell ''1234.Apple'']) example_fs
     0 20 ''missing_dir/out.csv'' 1 =
     (Inl OSError, [Print ''Scraping images 0-20''])"
    by code_simp
  from single_write_at_end
         [of "example_web [example_cell ''1234.Apple'', cell_without_image]" example_fs
             0 20 "''out.csv''" 1]
       single_write_at_end
         [of "example_web [example_cell ''1234.Apple'']" example_fs 0 20 "''out.csv''" 1]
       single_write_at_end
         [of "example_web [example_cell ''1234.Apple'']" example_fs 0 20
             "''missing_dir/out.csv''" 1]
       h ok no
  show ?thesis by blast
qed

text \<open>
  C8 as stated fails on a response with an error status and a well-formed body: the
  page at offset 0 is a structural error in the specification's sense (an HTTP failure),
  yet the run does not abort; it scrapes the body and writes the file.
\<close>

theorem error_status_counterexample:
  "(0::int) \<in> set (py_range 0 20 20) \<and>
   error_status_web [example_cell ''1234.Apple''] (BASE_URL 0) =
     Inr \<lparr>status_code = 500, content = example_page [example_cell ''1234.Apple'']\<rparr> \<and>
   structural_error (error_status_web [example_cell ''1234.Apple'']) 0 \<and>
   get_pomological_data (error_status_web [example_cell ''1234.Apple'']) example_fs
     0 20 ''out.csv'' 1 =
     (Inr None,
      [Print ''Scraping images 0-20'',
       WriteFile ''out.csv'' (to_csv [(0, example_record (Some ''1234'') (Some ''Apple''))]),
       Print ''Data successfully saved to out.csv''])"
  by code_simp

section \<open>An empty range of offsets\<close>

text \<open>
  C9. When \<open>start \<ge> end\<close> the range of offsets is empty, the loop leaves the list of
  frames empty and prints nothing, the concatenation of no frames raises ValueError,
  and the run ends in that error with no file written.
\<close>

theorem empty_range_fails:
  assumes "start \<ge> end'"
  shows "py_range start end' 20 = [] \<and>
         scrape_pages web verbose (py_range start end' 20) [] [] = (Inr [], []) \<and>
         pd_concat [] = Inl ValueError \<and>
         get_pomological_data web can_write start end' csv_name verbose = (Inl ValueError, [])"
  using py_range_empty [OF assms]
  by (simp add: get_pomological_data_def pd_concat_def)

theorem empty_range_fails_witness:
  "(20::int) \<ge> 20 \<and> py_range 20 20 20 = [] \<and>
   get_pomological_data (example_web [example_cell ''1234.Apple'']) example_fs 20 20 ''out.csv'' 1 =
     (Inl ValueError, []) \<and>
   (40::int) \<ge> 0 \<and>
   get_pomological_data (example_web [example_cell ''1234.Apple'']) example_fs 40 0 ''out.csv'' 1 =
     (Inl ValueError, [])"
proof -
  have h: "(20::int) \<ge> 20" by simp
  have g: "(40::int) \<ge> 0" by simp
  from empty_range_fails [OF h] empty_range_fails [OF g] h g show ?thesis by blast
qed

section \<open>The painting index is never null\<close>

text \<open>
  C10. Splitting on the dot always yields at least one segment, so the record of a
  cell always has a \<open>painting_index\<close>, and so has every row of every frame that
  the loop over the pages accumulates.
\<close>

theorem painting_index_never_null:
  "str_split CHR ''.'' s \<noteq> [] \<and>
   (scrape_cell img = Inr r \<longrightarrow> painting_index r \<noteq> None) \<and>
   (scrape_pages web verbose (py_range start end' 20) [] [] = (Inr all_pomo_data, out) \<longrightarrow>
      (\<forall>df\<in>set all_pomo_data. \<forall>row\<in>set df. painting_index (snd row) \<noteq> None))"
proof (intro conjI impI)
  show "str_split CHR ''.'' s \<noteq> []" by (rule str_split_not_Nil)
next
  assume "scrape_cell img = Inr r"
  then show "painting_index r \<noteq> None" by (rule scrape_cell_painting_index)
next
  assume "scrape_pages web verbose (py_range start end' 20) [] [] = (Inr all_pomo_data, out)"
  then show "\<forall>df\<in>set all_pomo_data. \<forall>row\<in>set df. painting_index (snd row) \<noteq> None"
    by (rule scrape_pages_painting_index) simp
qed

theorem painting_index_never_null_witness:
  "str_split CHR ''.'' ''5678'' \<noteq> [] \<and>
   scrape_cell (example_cell ''5678'') = Inr (example_record (Some ''5678'') None) \<and>
   painting_index (example_record (Some ''5678'') None) \<noteq> None \<and>
   scrape_pages (example_web [example_cell ''5678'']) 0 (py_range 0 20 20) [] [] =
     (Inr [[(0, example_record (Some ''5678'') None)]], []) \<and>
   painting_index (snd (0::int, example_record (Some ''5678'') None)) \<noteq> None"
proof -
  have h1: "scrape_cell (example_cell ''5678'') = Inr (example_record (Some ''5678'') None)"
    by code_simp
  have h2: "scrape_pages (example_web [example_cell ''5678'']) 0 (py_range 0 20 20) [] [] =
     (Inr [[(0, example_record (Some ''5678'') None)]], [])"
    by code_simp
  from painting_index_never_null
         [of "''5678''" "example_cell ''5678''" "example_record (Some ''5678'') None"
             "example_web [example_cell ''5678'']" 0 0 20
             "[[(0, example_record (Some ''5678'') None)]]" "[]"]
       h1 h2
  show ?thesis by simp
qed

end
